theory Spec2Isabelle
  imports Main
begin

section \<open>Python string primitives\<close>

text \<open>
  A Python \<open>str\<close> is a sequence of code points and \<open>len\<close> counts them. The model
  uses \<^typ>\<open>string\<close>, one \<^typ>\<open>char\<close> per code point, so it covers the code points
  below 256 (ASCII and Latin-1); text with higher code points is outside the model.
\<close>

definition py_isspace :: "char \<Rightarrow> bool" where
  \<comment> \<open>\<open>str.isspace\<close> on one code point below 256: TAB, LF, VT, FF, CR, the four
      separators FS, GS, RS, US, the space, NEL and the no-break space.\<close>
  "py_isspace c =
     (let n = (of_char c :: nat)
      in (9 \<le> n \<and> n \<le> 13) \<or> (28 \<le> n \<and> n \<le> 32) \<or> n = 133 \<or> n = 160)"

definition py_lower_char :: "char \<Rightarrow> char" where
  \<comment> \<open>\<open>str.lower\<close> on one code point below 256: A to Z, and the Latin-1 capitals
      192 to 222 except the multiplication sign 215, move up by 32.\<close>
  "py_lower_char c =
     (let n = (of_char c :: nat)
      in if (65 \<le> n \<and> n \<le> 90) \<or> (192 \<le> n \<and> n \<le> 222 \<and> n \<noteq> 215)
         then char_of (n + 32) else c)"

definition py_lower :: "string \<Rightarrow> string" where
  "py_lower s = map py_lower_char s"

definition py_lstrip :: "string \<Rightarrow> string" where
  "py_lstrip s = dropWhile py_isspace s"

definition py_rstrip :: "string \<Rightarrow> string" where
  "py_rstrip s = rev (dropWhile py_isspace (rev s))"

definition py_strip :: "string \<Rightarrow> string" where
  \<comment> \<open>\<open>s.strip()\<close> with no argument.\<close>
  "py_strip s = py_rstrip (py_lstrip s)"

definition py_slice_to :: "'a list \<Rightarrow> int \<Rightarrow> 'a list" where
  \<comment> \<open>\<open>s[:n]\<close>: a negative bound counts from the end and is clamped at 0.\<close>
  "py_slice_to s n =
     (if n < 0 then take (nat (int (length s) + n)) s else take (nat n) s)"

definition py_slice_from :: "'a list \<Rightarrow> int \<Rightarrow> 'a list" where
  \<comment> \<open>\<open>s[n:]\<close>: a negative bound counts from the end and is clamped at 0.\<close>
  "py_slice_from s n =
     (if n < 0 then drop (nat (int (length s) + n)) s else drop (nat n) s)"

definition py_repeat :: "'a list \<Rightarrow> int \<Rightarrow> 'a list" where
  \<comment> \<open>\<open>s * n\<close>: empty when \<open>n\<close> is zero or negative.\<close>
  "py_repeat s n = concat (replicate (nat n) s)"

definition truthy :: "string option \<Rightarrow> bool" where
  \<comment> \<open>\<open>if api_key:\<close> on the result of \<open>os.getenv\<close>: \<open>None\<close> and the empty string
      are false.\<close>
  "truthy v = (case v of None \<Rightarrow> False | Some s \<Rightarrow> s \<noteq> [])"


section \<open>The environment verifier (test\_setup.py)\<close>

text \<open>
  What the verifier reads from its surroundings: the interpreter's version, which
  packages can be imported, the value of the credential variable once the key-value
  file has been loaded, and whether constructing the client with a key raises. The
  script itself imports \<open>dotenv\<close> at its head, so the environments it runs in are
  those where \<open>importable env ''dotenv''\<close> holds.
\<close>

datatype failure = ModuleNotFoundError string | ClientError string

record environment =
  version_info :: "int \<times> int \<times> int"
  importable :: "string \<Rightarrow> bool"
  OPENAI_API_KEY :: "string option"
  ChatOpenAI :: "string \<Rightarrow> string \<Rightarrow> failure option"

text \<open>
  The lines the verifier prints, one constructor per \<open>print\<close> call of the source,
  with the values the source formats into the line; the decoration is left out.
\<close>

datatype report_line =
    Checking_Python_Version
  | Version_Good int int int
  | Version_Bad int int
  | Checking_Packages
  | Package_Ok string
  | Package_Not_Installed string
  | Blank_Line
  | Checking_API_Key
  | API_Key_Found string
  | API_Key_Not_Found
  | Hint_Create_Env_File
  | Hint_Add_Key
  | Hint_Get_Key
  | Testing_Connection
  | Connection_Skipped
  | Connection_Successful
  | Connection_Failed failure
  | Rule
  | Title
  | Summary
  | Result_Line string bool
  | Total_Line nat nat
  | All_Systems_Go
  | Run_Chatbot_Hint
  | Some_Tests_Failed

text \<open>
  The verifier's effects: the lines printed so far, and the clients constructed so
  far, each as the model name and the key it was given.
\<close>

record verifier =
  printed :: "report_line list"
  clients :: "(string \<times> string) list"

definition emit :: "report_line \<Rightarrow> verifier \<Rightarrow> verifier" where
  "emit l v = v\<lparr>printed := printed v @ [l]\<rparr>"

definition test_python_version :: "environment \<Rightarrow> verifier \<Rightarrow> bool \<times> verifier" where
  "test_python_version env v =
     (let v1 = emit Checking_Python_Version v;
          (major, minor, micro) = version_info env
      in if major = 3 \<and> minor \<ge> 9
         then (True, emit (Version_Good major minor micro) v1)
         else (False, emit (Version_Bad major minor) v1))"

definition required_packages :: "(string \<times> string) list" where
  "required_packages =
     [(''langchain'', ''LangChain''),
      (''langchain_openai'', ''LangChain OpenAI''),
      (''dotenv'', ''Python Dotenv''),
      (''openai'', ''OpenAI SDK'')]"

fun check_packages ::
  "environment \<Rightarrow> (string \<times> string) list \<Rightarrow> bool \<times> verifier \<Rightarrow> bool \<times> verifier" where
  "check_packages env [] (all_good, v) = (all_good, v)"
| "check_packages env ((package, name) # rest) (all_good, v) =
     (if importable env package
      then check_packages env rest (all_good, emit (Package_Ok name) v)
      else check_packages env rest (False, emit (Package_Not_Installed name) v))"

definition test_imports :: "environment \<Rightarrow> verifier \<Rightarrow> bool \<times> verifier" where
  "test_imports env v =
     (let (all_good, v1) = check_packages env required_packages (True, emit Checking_Packages v)
      in (all_good, emit Blank_Line v1))"

definition masked_key :: "string \<Rightarrow> string" where
  \<comment> \<open>\<open>api_key[:8] + "*" * (len(api_key) - 12) + api_key[-4:]\<close>\<close>
  "masked_key api_key =
     py_slice_to api_key 8
     @ py_repeat ''*'' (int (length api_key) - 12)
     @ py_slice_from api_key (- 4)"

definition test_api_key :: "environment \<Rightarrow> verifier \<Rightarrow> bool \<times> verifier" where
  "test_api_key env v =
     (let v1 = emit Checking_API_Key v;
          api_key = OPENAI_API_KEY env
      in if truthy api_key
         then (True, emit (API_Key_Found (masked_key (the api_key))) v1)
         else (False,
               emit Hint_Get_Key (emit Hint_Add_Key (emit Hint_Create_Env_File
                 (emit API_Key_Not_Found v1)))))"

definition test_api_connection :: "environment \<Rightarrow> verifier \<Rightarrow> bool option \<times> verifier" where
  \<comment> \<open>The import is the first statement of the \<open>try\<close> block, before the key is read:
      when it fails, the handler reports a failed connection whatever the key is.\<close>
  "test_api_connection env v =
     (let v1 = emit Testing_Connection v
      in if \<not> importable env ''langchain_openai''
         then (Some False, emit (Connection_Failed (ModuleNotFoundError ''langchain_openai'')) v1)
         else
           (let api_key = OPENAI_API_KEY env
            in if \<not> truthy api_key
               then (None, emit Connection_Skipped v1)
               else
                 (let key = the api_key;
                      v2 = v1\<lparr>clients := clients v1 @ [(''gpt-3.5-turbo'', key)]\<rparr>
                  in case ChatOpenAI env ''gpt-3.5-turbo'' key of
                       Some e \<Rightarrow> (Some False, emit (Connection_Failed e) v2)
                     | None \<Rightarrow> (Some True, emit Connection_Successful v2))))"

definition collect ::
  "bool \<Rightarrow> bool \<Rightarrow> bool \<Rightarrow> bool option \<Rightarrow> (string \<times> bool) list" where
  \<comment> \<open>The \<open>results\<close> list of \<open>main\<close>: three appends, and a fourth when the
      connection test did not return \<open>None\<close>.\<close>
  "collect python_version dependencies api_key api_test =
     [(''Python Version'', python_version), (''Dependencies'', dependencies),
      (''API Key'', api_key)]
     @ (case api_test of None \<Rightarrow> [] | Some r \<Rightarrow> [(''API Connection'', r)])"

definition passed :: "(string \<times> bool) list \<Rightarrow> nat" where
  \<comment> \<open>\<open>sum(1 for _, result in results if result)\<close>\<close>
  "passed results = sum_list (map (\<lambda>(name, result). if result then 1 else 0) results)"

definition total_checks :: "(string \<times> bool) list \<Rightarrow> nat" where
  \<comment> \<open>\<open>total = len(results)\<close>\<close>
  "total_checks results = length results"

definition summary :: "(string \<times> bool) list \<Rightarrow> report_line list" where
  "summary results =
     [Rule, Summary, Rule]
     @ map (\<lambda>(test_name, result). Result_Line test_name result) results
     @ [Total_Line (passed results) (total_checks results)]
     @ (if passed results = total_checks results
        then [All_Systems_Go, Run_Chatbot_Hint] else [Some_Tests_Failed])"

definition outcomes :: "environment \<Rightarrow> verifier \<Rightarrow> (string \<times> bool) list \<times> verifier" where
  \<comment> \<open>The four checks of \<open>main\<close>, in the order of the source.\<close>
  "outcomes env v =
     (let (r1, v1) = test_python_version env v;
          (r2, v2) = test_imports env v1;
          (r3, v3) = test_api_key env v2;
          (api_test, v4) = test_api_connection env v3
      in (collect r1 r2 r3 api_test, v4))"

definition blank_report :: verifier where
  \<comment> \<open>The verifier's state after the title of \<open>main\<close> is printed.\<close>
  "blank_report = \<lparr>printed = [Rule, Title, Rule], clients = []\<rparr>"

definition main :: "environment \<Rightarrow> verifier" where
  "main env =
     (let (results, v4) = outcomes env blank_report
      in v4\<lparr>printed := printed v4 @ summary results\<rparr>)"

text \<open>
  The spec's words for the version check, to be compared with
  \<open>test_python_version\<close>: the (major, minor) version meets a minimum threshold, in
  the order of versions (first by major, then by minor).
\<close>

definition meets_minimum :: "int \<times> int \<Rightarrow> int \<times> int \<Rightarrow> bool" where
  "meets_minimum running minimum =
     (fst minimum < fst running
      \<or> (fst running = fst minimum \<and> snd minimum \<le> snd running))"

text \<open>
  Two machines for the examples, both with no credential. The script imports
  \<open>dotenv\<close> when it is loaded (line 8), before \<open>main\<close> runs, so it runs only where
  that package can be imported: on the first machine \<open>dotenv\<close> is the only package
  installed, on the second every package is.
\<close>

definition bare_machine :: environment where
  "bare_machine =
     \<lparr>version_info = (3, 11, 4), importable = (\<lambda>package. package = ''dotenv''),
      OPENAI_API_KEY = None, ChatOpenAI = (\<lambda>model key. None)\<rparr>"

definition keyless_machine :: environment where
  "keyless_machine =
     \<lparr>version_info = (3, 11, 4), importable = (\<lambda>package. True),
      OPENAI_API_KEY = None, ChatOpenAI = (\<lambda>model key. None)\<rparr>"


section \<open>The chat loop (chatbot.py)\<close>

datatype role = Customer | Support_Agent

type_synonym history = "(role \<times> string) list"

text \<open>
  What a call can raise: the operator's interrupt, or an instance of \<open>Exception\<close>
  with its message (a network or provider error, the end of the input). These are
  the two classes the handlers of the loop tell apart.
\<close>

datatype exc = KeyboardInterrupt | Exception string

text \<open>
  The remote model is opaque: given the number of earlier requests, the prompt and
  the history supplied with it, it replies or raises. The request number lets two
  equal requests be answered differently.
\<close>

type_synonym remote = "nat \<Rightarrow> string \<Rightarrow> history \<Rightarrow> exc + string"

text \<open>
  The lines the chat loop prints: one constructor for the four lines of the banner,
  one for the prompt of \<open>input\<close>, and one per \<open>print\<close> call of the loop, with
  the values formatted into the line. What the library prints on its own (the chain is
  constructed with \<open>verbose=True\<close>) is not part of it.
\<close>

datatype chat_line =
    Banner
  | You_Prompt
  | Exit_Farewell
  | Please_Enter_Message
  | Thinking
  | Support_Agent_Says string
  | Interrupted_Farewell
  | Error_Line exc
  | Check_API_Key_Hint

record chat =
  chat_history :: history
  stdout :: "chat_line list"
  requests :: "(string \<times> history) list"

definition say :: "chat_line \<Rightarrow> chat \<Rightarrow> chat" where
  "say l s = s\<lparr>stdout := stdout s @ [l]\<rparr>"

definition instructions :: string where
  \<comment> \<open>The fixed text of the template, up to its field.\<close>
  "instructions =
     ''You are a helpful, friendly customer support agent for a tech company.\<newline>''
     @ ''Your role is to:\<newline>''
     @ ''- Answer questions about products and services\<newline>''
     @ ''- Help with troubleshooting\<newline>''
     @ ''- Be empathetic and professional\<newline>''
     @ ''- Keep responses concise but helpful\<newline>''
     @ ''\<newline>''"

definition template :: string where
  "template = instructions @ ''{input}''"

fun format_template :: "string \<Rightarrow> string \<Rightarrow> string" where
  \<comment> \<open>Modelled from the spec: the library's formatting of the template, a fixed
      string with one substitution point. Every field \<open>{input}\<close> is replaced by the
      value; the value is not scanned again. The template of the source has no other
      brace.\<close>
  "format_template [] v = []"
| "format_template (c # cs) v =
     (if take 7 (c # cs) = ''{input}''
      then v @ format_template (drop 6 cs) v
      else c # format_template cs v)"

definition remote_outcome :: "remote \<Rightarrow> chat \<Rightarrow> string \<Rightarrow> exc + string" where
  \<comment> \<open>What the remote model does with the request made for this input in state \<open>s\<close>.\<close>
  "remote_outcome llm s input =
     llm (length (requests s)) (format_template template input) (chat_history s)"

text \<open>
  Modelled from the spec: \<open>chain.run\<close>, the library call behind
  \<open>chain.run(input=user_input)\<close>; the chain and its memory are constructed in the
  source (lines 39 to 52) and their code is not part of it. As the spec words it, the
  call inserts the input into the fixed template, combines the prompt with the
  accumulated history, invokes the remote model, and on a reply appends the new user
  message and the reply to the history; an exception of the remote call propagates
  and leaves the history as it was.
\<close>

definition chain_run :: "remote \<Rightarrow> string \<Rightarrow> chat \<Rightarrow> (exc + string) \<times> chat" where
  \<comment> \<open>Modelled from the spec: the library call \<open>chain.run\<close>, whose code is not in
      the source.\<close>
  "chain_run llm input s =
     (let prompt = format_template template input;
          s1 = s\<lparr>requests := requests s @ [(prompt, chat_history s)]\<rparr>
      in case remote_outcome llm s input of
           Inl e \<Rightarrow> (Inl e, s1)
         | Inr response \<Rightarrow>
             (Inr response,
              s1\<lparr>chat_history :=
                   chat_history s1 @ [(Customer, input), (Support_Agent, response)]\<rparr>))"

text \<open>
  The body of the \<open>try\<close> block. It leaves by \<open>break\<close>, by \<open>continue\<close> or its end
  (both go to the next pass), or by an exception. The argument \<open>line\<close> is what
  \<open>input\<close> does on this pass: it returns a line or raises.
\<close>

datatype flow = Break | Continue

definition loop_body :: "remote \<Rightarrow> exc + string \<Rightarrow> chat \<Rightarrow> (exc + flow) \<times> chat" where
  "loop_body llm line s =
     (let s0 = say You_Prompt s
      in case line of
           Inl e \<Rightarrow> (Inl e, s0)
         | Inr raw \<Rightarrow>
             (let user_input = py_strip raw
              in if py_lower user_input = ''exit''
                 then (Inr Break, say Exit_Farewell s0)
                 else if user_input = []
                 then (Inr Continue, say Please_Enter_Message s0)
                 else
                   (case chain_run llm user_input (say Thinking s0) of
                      (Inl e, s1) \<Rightarrow> (Inl e, s1)
                    | (Inr response, s1) \<Rightarrow>
                        (Inr Continue, say (Support_Agent_Says response) s1))))"

datatype status = awaiting_input | terminated

definition iteration :: "remote \<Rightarrow> exc + string \<Rightarrow> chat \<Rightarrow> status \<times> chat" where
  \<comment> \<open>One pass of \<open>while True\<close>: the body and the two handlers.\<close>
  "iteration llm line s =
     (case loop_body llm line s of
        (Inr Break, s1) \<Rightarrow> (terminated, s1)
      | (Inr Continue, s1) \<Rightarrow> (awaiting_input, s1)
      | (Inl KeyboardInterrupt, s1) \<Rightarrow> (terminated, say Interrupted_Farewell s1)
      | (Inl (Exception e), s1) \<Rightarrow>
          (awaiting_input, say Check_API_Key_Hint (say (Error_Line (Exception e)) s1)))"

fun chat_loop :: "remote \<Rightarrow> (exc + string) list \<Rightarrow> chat \<Rightarrow> status \<times> chat" where
  \<comment> \<open>The loop over what \<open>input\<close> does on each pass. When the list is used up the
      loop has not ended: it waits for the next input.\<close>
  "chat_loop llm [] s = (awaiting_input, s)"
| "chat_loop llm (line # rest) s =
     (case iteration llm line s of
        (terminated, s1) \<Rightarrow> (terminated, s1)
      | (awaiting_input, s1) \<Rightarrow> chat_loop llm rest s1)"

definition started :: chat where
  \<comment> \<open>The state when the loop is entered: an empty memory, the banner printed.\<close>
  "started = \<lparr>chat_history = [], stdout = [Banner], requests = []\<rparr>"

definition run_chatbot :: "remote \<Rightarrow> (exc + string) list \<Rightarrow> status \<times> chat" where
  "run_chatbot llm lines = chat_loop llm lines started"

text \<open>
  A remote model for the examples: it answers the first request and fails on every
  later one.
\<close>

definition answers_once :: remote where
  "answers_once n prompt h = (if n = 0 then Inr ''Hello'' else Inl (Exception ''timeout''))"

section \<open>Facts about the string primitives\<close>

lemma py_repeat_star: "py_repeat ''*'' n = replicate (nat n) CHR ''*''"
  by (induction "nat n" arbitrary: n) (simp_all add: py_repeat_def replicate_append_same)














lemma py_strip_blank: "list_all py_isspace raw \<Longrightarrow> py_strip raw = []"
proof -
  assume "list_all py_isspace raw"
  then have d: "dropWhile py_isspace raw = []"
    by (induction raw) simp_all
  show ?thesis
    unfolding py_strip_def py_lstrip_def py_rstrip_def d by simp
qed




section \<open>The credential mask\<close>

text \<open>
  Claim C1. For a key of length \<open>L\<close> of at least 12, the mask that
  \<open>test_api_key\<close> displays is the first 8 characters of the key, then \<open>L - 12\<close>
  stars, then the last 4 characters. It is as long as the key, and position by position
  it shows the key's character in the first 8 and the last 4 places and a star in every
  other place.
\<close>

theorem masked_key_long:
  "12 \<le> length k \<Longrightarrow>
     masked_key k = take 8 k @ replicate (length k - 12) CHR ''*'' @ drop (length k - 4) k
     \<and> length (masked_key k) = length k
     \<and> (\<forall>i < length k. masked_key k ! i =
           (if i < 8 \<or> length k - 4 \<le> i then k ! i else CHR ''*''))"
proof -
  assume L: "12 \<le> length k"
  have n: "nat (int (length k) - 12) = length k - 12" by simp
  have d: "nat (int (length k) - 4) = length k - 4" using L by simp
  have eq: "masked_key k = take 8 k @ replicate (length k - 12) CHR ''*'' @ drop (length k - 4) k"
    by (simp add: masked_key_def py_slice_to_def py_slice_from_def py_repeat_star n d)
  have len: "length (masked_key k) = length k" using L by (simp add: eq)
  have pos: "masked_key k ! i = (if i < 8 \<or> length k - 4 \<le> i then k ! i else CHR ''*'')"
    if "i < length k" for i
    using that L by (auto simp add: eq nth_append min_def)
  show ?thesis using eq len pos by blast
qed

theorem masked_key_long_witness:
  "12 \<le> length ''sk-abcdefghijklmnopqrst'' \<and>
   masked_key ''sk-abcdefghijklmnopqrst'' = ''sk-abcde***********qrst''"
  using masked_key_long [of "''sk-abcdefghijklmnopqrst''"] by simp


text \<open>
  Claim C10. For a non-empty key of length \<open>L\<close> below 12, the repetition yields no
  star, and the mask is the first \<open>min 8 L\<close> characters followed by the last
  \<open>min 4 L\<close> characters. Every position of the key is in one of the two parts, so
  every character of the key is shown and the mask holds no other character; a key of
  at most 8 characters is shown whole at the start of the mask.
\<close>

theorem masked_key_short:
  "0 < length k \<Longrightarrow> length k < 12 \<Longrightarrow>
     py_repeat ''*'' (int (length k) - 12) = []
     \<and> masked_key k = take (min 8 (length k)) k @ drop (length k - min 4 (length k)) k
     \<and> set (masked_key k) = set k
     \<and> (\<forall>i < length k. i < 8 \<or> length k - 4 \<le> i)
     \<and> (\<forall>i < length k. i < 8 \<longrightarrow> masked_key k ! i = k ! i)
     \<and> (\<forall>i < length k. length k - 4 \<le> i \<longrightarrow>
           masked_key k ! (min 8 (length k) + (i - (length k - 4))) = k ! i)
     \<and> (length k \<le> 8 \<longrightarrow> take (length k) (masked_key k) = k)"
proof -
  assume L0: "0 < length k" and L: "length k < 12"
  have r: "py_repeat ''*'' (int (length k) - 12) = []"
    using L by (simp add: py_repeat_star)
  have d: "nat (int (length k) - 4) = length k - 4" by simp
  have eq: "masked_key k = take 8 k @ drop (length k - 4) k"
    unfolding masked_key_def r by (simp add: py_slice_to_def py_slice_from_def d)
  have eq': "masked_key k = take (min 8 (length k)) k @ drop (length k - min 4 (length k)) k"
    by (simp add: eq min_def)
  have cover: "i < 8 \<or> length k - 4 \<le> i" if "i < length k" for i
    using that L by arith
  have sub: "set k \<subseteq> set (masked_key k)"
  proof
    fix x assume "x \<in> set k"
    then obtain i where i: "i < length k" "k ! i = x" by (auto simp: in_set_conv_nth)
    show "x \<in> set (masked_key k)"
    proof (cases "i < 8")
      case True
      then have "x \<in> set (take 8 k)" using i by (auto simp: in_set_conv_nth)
      then show ?thesis by (simp add: eq)
    next
      case False
      then have "length k - 4 \<le> i" using cover i by blast
      then have "drop (length k - 4) k ! (i - (length k - 4)) = x"
        and "i - (length k - 4) < length (drop (length k - 4) k)"
        using i by simp_all
      then have "x \<in> set (drop (length k - 4) k)"
        using nth_mem by blast
      then show ?thesis by (simp add: eq)
    qed
  qed
  have sup: "set (masked_key k) \<subseteq> set k"
    using set_take_subset [of 8 k] set_drop_subset [of "length k - 4" k] by (auto simp: eq)
  have pre: "masked_key k ! i = k ! i" if "i < length k" "i < 8" for i
    using that by (simp add: eq nth_append)
  have suf: "masked_key k ! (min 8 (length k) + (i - (length k - 4))) = k ! i"
    if "i < length k" "length k - 4 \<le> i" for i
  proof -
    have "(take 8 k @ drop (length k - 4) k) ! (length (take 8 k) + (i - (length k - 4)))
          = drop (length k - 4) k ! (i - (length k - 4))"
      by (rule nth_append_length_plus)
    also have "\<dots> = k ! i" using that by simp
    finally show ?thesis by (simp add: eq min.commute)
  qed
  have short: "take (length k) (masked_key k) = k" if "length k \<le> 8"
    using that by (simp add: eq)
  show ?thesis using r eq' sub sup cover pre suf short by blast
qed

theorem masked_key_short_witness:
  "0 < length ''abcdefghij'' \<and> length ''abcdefghij'' < 12 \<and>
   masked_key ''abcdefghij'' = ''abcdefghghij''"
  using masked_key_short [of "''abcdefghij''"] by simp


section \<open>Facts about the verifier\<close>

lemma emit_simps:
  "printed (emit l v) = printed v @ [l]" "clients (emit l v) = clients v"
  by (simp_all add: emit_def)

lemma test_python_version_prints:
  "\<exists>ls. printed (snd (test_python_version env v)) = printed v @ ls
        \<and> (\<forall>l \<in> set ls. l \<noteq> All_Systems_Go \<and> (\<forall>p t. l \<noteq> Total_Line p t))
        \<and> clients (snd (test_python_version env v)) = clients v"
  by (auto simp add: test_python_version_def emit_def Let_def split: prod.splits)

lemma check_packages_prints:
  "\<exists>ls. printed (snd (check_packages env ps (g, v))) = printed v @ ls
        \<and> (\<forall>l \<in> set ls. l \<noteq> All_Systems_Go \<and> (\<forall>p t. l \<noteq> Total_Line p t))
        \<and> clients (snd (check_packages env ps (g, v))) = clients v"
proof (induction ps arbitrary: g v)
  case Nil
  then show ?case by simp
next
  case (Cons a ps)
  obtain package name where a: "a = (package, name)" by (cases a)
  show ?case
  proof (cases "importable env package")
    case True
    from Cons.IH [of g "emit (Package_Ok name) v"] obtain ls where
      "printed (snd (check_packages env ps (g, emit (Package_Ok name) v))) = printed (emit (Package_Ok name) v) @ ls"
      "\<forall>l \<in> set ls. l \<noteq> All_Systems_Go \<and> (\<forall>p t. l \<noteq> Total_Line p t)"
      "clients (snd (check_packages env ps (g, emit (Package_Ok name) v))) = clients (emit (Package_Ok name) v)"
      by blast
    then show ?thesis
      using True a by (intro exI [of _ "Package_Ok name # ls"]) (simp add: emit_simps)
  next
    case False
    from Cons.IH [of False "emit (Package_Not_Installed name) v"] obtain ls where
      "printed (snd (check_packages env ps (False, emit (Package_Not_Installed name) v))) = printed (emit (Package_Not_Installed name) v) @ ls"
      "\<forall>l \<in> set ls. l \<noteq> All_Systems_Go \<and> (\<forall>p t. l \<noteq> Total_Line p t)"
      "clients (snd (check_packages env ps (False, emit (Package_Not_Installed name) v))) = clients (emit (Package_Not_Installed name) v)"
      by blast
    then show ?thesis
      using False a by (intro exI [of _ "Package_Not_Installed name # ls"]) (simp add: emit_simps)
  qed
qed

lemma test_imports_prints:
  "\<exists>ls. printed (snd (test_imports env v)) = printed v @ ls
        \<and> (\<forall>l \<in> set ls. l \<noteq> All_Systems_Go \<and> (\<forall>p t. l \<noteq> Total_Line p t))
        \<and> clients (snd (test_imports env v)) = clients v"
proof -
  from check_packages_prints [of env required_packages True "emit Checking_Packages v"]
  obtain ls where
    "printed (snd (check_packages env required_packages (True, emit Checking_Packages v)))
       = printed (emit Checking_Packages v) @ ls"
    "\<forall>l \<in> set ls. l \<noteq> All_Systems_Go \<and> (\<forall>p t. l \<noteq> Total_Line p t)"
    "clients (snd (check_packages env required_packages (True, emit Checking_Packages v)))
       = clients (emit Checking_Packages v)"
    by blast
  then show ?thesis
    by (intro exI [of _ "Checking_Packages # ls @ [Blank_Line]"])
      (simp add: test_imports_def emit_simps split_beta)
qed

lemma test_api_key_prints:
  "\<exists>ls. printed (snd (test_api_key env v)) = printed v @ ls
        \<and> (\<forall>l \<in> set ls. l \<noteq> All_Systems_Go \<and> (\<forall>p t. l \<noteq> Total_Line p t))
        \<and> clients (snd (test_api_key env v)) = clients v"
  by (auto simp add: test_api_key_def emit_def Let_def)

lemma test_api_connection_prints:
  "\<exists>ls. printed (snd (test_api_connection env v)) = printed v @ ls
        \<and> (\<forall>l \<in> set ls. l \<noteq> All_Systems_Go \<and> (\<forall>p t. l \<noteq> Total_Line p t))"
  by (auto simp add: test_api_connection_def emit_def Let_def split: option.splits)

lemma test_api_connection_skipped:
  "\<not> truthy (OPENAI_API_KEY env) \<Longrightarrow> clients (snd (test_api_connection env v)) = clients v"
  by (simp add: test_api_connection_def emit_def Let_def)

lemma outcomes_prints:
  "\<exists>ls. printed (snd (outcomes env v)) = printed v @ ls
        \<and> (\<forall>l \<in> set ls. l \<noteq> All_Systems_Go \<and> (\<forall>p t. l \<noteq> Total_Line p t))"
proof -
  obtain r1 v1 where 1: "test_python_version env v = (r1, v1)" by (cases "test_python_version env v")
  obtain r2 v2 where 2: "test_imports env v1 = (r2, v2)" by (cases "test_imports env v1")
  obtain r3 v3 where 3: "test_api_key env v2 = (r3, v3)" by (cases "test_api_key env v2")
  obtain r4 v4 where 4: "test_api_connection env v3 = (r4, v4)" by (cases "test_api_connection env v3")
  from test_python_version_prints [of env v] 1 obtain l1 where
    p1: "printed v1 = printed v @ l1" "\<forall>l \<in> set l1. l \<noteq> All_Systems_Go \<and> (\<forall>p t. l \<noteq> Total_Line p t)"
    by auto
  from test_imports_prints [of env v1] 2 obtain l2 where
    p2: "printed v2 = printed v1 @ l2" "\<forall>l \<in> set l2. l \<noteq> All_Systems_Go \<and> (\<forall>p t. l \<noteq> Total_Line p t)"
    by auto
  from test_api_key_prints [of env v2] 3 obtain l3 where
    p3: "printed v3 = printed v2 @ l3" "\<forall>l \<in> set l3. l \<noteq> All_Systems_Go \<and> (\<forall>p t. l \<noteq> Total_Line p t)"
    by auto
  from test_api_connection_prints [of env v3] 4 obtain l4 where
    p4: "printed v4 = printed v3 @ l4" "\<forall>l \<in> set l4. l \<noteq> All_Systems_Go \<and> (\<forall>p t. l \<noteq> Total_Line p t)"
    by auto
  have "snd (outcomes env v) = v4" by (simp add: outcomes_def 1 2 3 4)
  then show ?thesis
    using p1 p2 p3 p4 by (intro exI [of _ "l1 @ l2 @ l3 @ l4"]) auto
qed

lemma outcomes_clients:
  "\<not> truthy (OPENAI_API_KEY env) \<Longrightarrow> clients (snd (outcomes env v)) = clients v"
proof -
  assume k: "\<not> truthy (OPENAI_API_KEY env)"
  obtain r1 v1 where 1: "test_python_version env v = (r1, v1)" by (cases "test_python_version env v")
  obtain r2 v2 where 2: "test_imports env v1 = (r2, v2)" by (cases "test_imports env v1")
  obtain r3 v3 where 3: "test_api_key env v2 = (r3, v3)" by (cases "test_api_key env v2")
  obtain r4 v4 where 4: "test_api_connection env v3 = (r4, v4)" by (cases "test_api_connection env v3")
  from test_python_version_prints [of env v] 1 have c1: "clients v1 = clients v" by auto
  from test_imports_prints [of env v1] 2 have c2: "clients v2 = clients v1" by auto
  from test_api_key_prints [of env v2] 3 have c3: "clients v3 = clients v2" by auto
  from test_api_connection_skipped [OF k, of v3] 4 have c4: "clients v4 = clients v3" by auto
  have "snd (outcomes env v) = v4" by (simp add: outcomes_def 1 2 3 4)
  then show ?thesis using c1 c2 c3 c4 by simp
qed

lemma summary_total:
  "Total_Line p t \<in> set (summary results) \<longleftrightarrow> p = passed results \<and> t = total_checks results"
  by (auto simp add: summary_def split: prod.splits)

lemma summary_banner:
  "All_Systems_Go \<in> set (summary results) \<longleftrightarrow> passed results = total_checks results"
  by (auto simp add: summary_def split: prod.splits)

lemma passed_all: "passed results = total_checks results \<longleftrightarrow> list_all snd results"
proof -
  have "passed results \<le> total_checks results \<and> (passed results = total_checks results \<longleftrightarrow> list_all snd results)"
    by (induction results) (auto simp add: passed_def total_checks_def split: if_splits)
  then show ?thesis by simp
qed

lemma main_printed:
  "printed (main env) = printed (snd (outcomes env blank_report)) @ summary (fst (outcomes env blank_report))"
  by (simp add: main_def split: prod.splits)

lemma main_total:
  "Total_Line p t \<in> set (printed (main env)) \<longleftrightarrow>
     p = passed (fst (outcomes env blank_report)) \<and> t = total_checks (fst (outcomes env blank_report))"
proof -
  from outcomes_prints [of env blank_report] obtain ls where
    "printed (snd (outcomes env blank_report)) = printed blank_report @ ls"
    "\<forall>l \<in> set ls. l \<noteq> All_Systems_Go \<and> (\<forall>p t. l \<noteq> Total_Line p t)"
    by blast
  then show ?thesis
    by (auto simp add: main_printed summary_total blank_report_def)
qed

lemma main_banner:
  "All_Systems_Go \<in> set (printed (main env)) \<longleftrightarrow> list_all snd (fst (outcomes env blank_report))"
proof -
  from outcomes_prints [of env blank_report] obtain ls where
    "printed (snd (outcomes env blank_report)) = printed blank_report @ ls"
    "\<forall>l \<in> set ls. l \<noteq> All_Systems_Go \<and> (\<forall>p t. l \<noteq> Total_Line p t)"
    by blast
  then show ?thesis
    by (auto simp add: main_printed summary_banner passed_all blank_report_def)
qed

lemma test_python_version_result:
  "fst (test_python_version env v) =
     (fst (version_info env) = 3 \<and> fst (snd (version_info env)) \<ge> 9)"
  by (simp add: test_python_version_def Let_def split: prod.splits)

lemma check_packages_result:
  "fst (check_packages env ps (g, v)) = (g \<and> list_all (\<lambda>(package, name). importable env package) ps)"
  by (induction ps arbitrary: g v) (auto split: if_splits)

lemma test_imports_result:
  "fst (test_imports env v) = list_all (\<lambda>(package, name). importable env package) required_packages"
  by (simp add: test_imports_def split_beta check_packages_result)

lemma test_api_key_result: "fst (test_api_key env v) = truthy (OPENAI_API_KEY env)"
  by (simp add: test_api_key_def Let_def)

lemma test_api_connection_result:
  "fst (test_api_connection env v) =
     (if \<not> importable env ''langchain_openai'' then Some False
      else if \<not> truthy (OPENAI_API_KEY env) then None
      else Some (ChatOpenAI env ''gpt-3.5-turbo'' (the (OPENAI_API_KEY env)) = None))"
  by (simp add: test_api_connection_def Let_def split: option.splits)

lemma outcomes_results:
  "fst (outcomes env v) =
     collect (fst (test_python_version env v)) (fst (test_imports env v))
       (fst (test_api_key env v)) (fst (test_api_connection env v))"
proof -
  have "fst (outcomes env v) =
     collect (fst (test_python_version env v))
       (fst (test_imports env (snd (test_python_version env v))))
       (fst (test_api_key env (snd (test_imports env (snd (test_python_version env v))))))
       (fst (test_api_connection env
          (snd (test_api_key env (snd (test_imports env (snd (test_python_version env v))))))))"
    by (simp add: outcomes_def split_beta)
  then show ?thesis
    by (simp only: test_imports_result test_api_key_result test_api_connection_result)
qed


text \<open>
  Claim C6. Whatever the four checks return, the numerator of the count is the number
  of executed checks that returned true and the denominator is the number of executed
  checks: a connection check that returns \<open>None\<close> adds to neither, so the count is
  out of 3 then and out of 4 otherwise. The results counted are those of the four
  checks, and the one total line that \<open>main\<close> prints carries exactly this count.
\<close>

theorem aggregate_count:
  "passed (collect r1 r2 r3 api_test) =
     (if r1 then 1 else 0) + (if r2 then 1 else 0) + (if r3 then 1 else 0)
     + (case api_test of Some True \<Rightarrow> 1 | _ \<Rightarrow> 0)
   \<and> total_checks (collect r1 r2 r3 api_test) = (case api_test of None \<Rightarrow> 3 | Some r \<Rightarrow> 4)
   \<and> fst (outcomes env v) =
       collect (fst (test_python_version env v)) (fst (test_imports env v))
         (fst (test_api_key env v)) (fst (test_api_connection env v))
   \<and> (Total_Line p t \<in> set (printed (main env)) \<longleftrightarrow>
        p = passed (fst (outcomes env blank_report))
        \<and> t = total_checks (fst (outcomes env blank_report)))"
proof -
  have 1: "passed (collect r1 r2 r3 api_test) =
     (if r1 then 1 else 0) + (if r2 then 1 else 0) + (if r3 then 1 else 0)
     + (case api_test of Some True \<Rightarrow> 1 | _ \<Rightarrow> 0)"
    by (simp add: passed_def collect_def split: option.splits bool.splits)
  have 2: "total_checks (collect r1 r2 r3 api_test) = (case api_test of None \<Rightarrow> 3 | Some r \<Rightarrow> 4)"
    by (simp add: total_checks_def collect_def split: option.splits)
  from 1 2 outcomes_results [of env v] main_total [of p t env] show ?thesis by blast
qed


text \<open>
  Claim C7. The version check does not pass for every version at or above 3.9: it
  requires the major version to be exactly 3. At version 4.0.0, which meets the
  minimum (3, 9), the check returns false. The check passes exactly for the versions
  that meet the minimum and have a major version of at most 3.
\<close>

theorem version_check_rejects_python_4:
  "\<not> fst (test_python_version (env\<lparr>version_info := (4, 0, 0)\<rparr>) v)
   \<and> meets_minimum (4, 0) (3, 9)
   \<and> fst (test_python_version env v) =
       (meets_minimum (fst (version_info env), fst (snd (version_info env))) (3, 9)
        \<and> fst (version_info env) \<le> 3)"
  by (auto simp add: test_python_version_result meets_minimum_def)


text \<open>
  Claim C8, as stated, fails. On a machine where the script can start (\<open>dotenv\<close>
  is installed) but \<open>langchain_openai\<close> is not, and with no credential, the
  connection check is not skipped: the import at the head of its \<open>try\<close> block fails,
  the check returns false and is counted, so the summary is out of 4.
\<close>

theorem missing_package_not_skipped:
  "importable bare_machine ''dotenv''
   \<and> \<not> truthy (OPENAI_API_KEY bare_machine)
   \<and> test_api_connection bare_machine blank_report =
       (Some False,
        emit (Connection_Failed (ModuleNotFoundError ''langchain_openai''))
          (emit Testing_Connection blank_report))
   \<and> fst (outcomes bare_machine blank_report) =
       [(''Python Version'', True), (''Dependencies'', False), (''API Key'', False),
        (''API Connection'', False)]
   \<and> total_checks (fst (outcomes bare_machine blank_report)) = 4"
proof -
  have i: "importable bare_machine ''dotenv''"
    and n: "\<not> importable bare_machine ''langchain_openai''"
    and k: "\<not> truthy (OPENAI_API_KEY bare_machine)"
    by (simp_all add: bare_machine_def truthy_def)
  have c: "test_api_connection bare_machine blank_report =
       (Some False,
        emit (Connection_Failed (ModuleNotFoundError ''langchain_openai''))
          (emit Testing_Connection blank_report))"
    using n by (simp add: test_api_connection_def Let_def)
  have v: "fst (test_python_version bare_machine blank_report)"
    by (simp add: test_python_version_result bare_machine_def)
  have d: "\<not> fst (test_imports bare_machine blank_report)"
    by (simp add: test_imports_result required_packages_def bare_machine_def)
  have r: "fst (outcomes bare_machine blank_report) =
       [(''Python Version'', True), (''Dependencies'', False), (''API Key'', False),
        (''API Connection'', False)]"
    using v d k c by (simp add: outcomes_results test_api_key_result collect_def)
  from i k c r show ?thesis by (simp add: total_checks_def)
qed


text \<open>
  Claim C8, amended. Whenever the credential is absent, the credential check returns
  false, no client is constructed and the success banner is not printed; when moreover
  the package \<open>langchain_openai\<close> can be imported, the connection check is skipped
  (it returns \<open>None\<close> after printing the notice) and is left out of the results, so
  the summary is out of 3. For every environment, the success banner is printed exactly
  when every executed check passed.
\<close>

theorem absent_credential:
  assumes "\<not> truthy (OPENAI_API_KEY env)"
  shows "\<not> fst (test_api_key env v)
       \<and> (importable env ''langchain_openai'' \<longrightarrow>
            test_api_connection env v = (None, emit Connection_Skipped (emit Testing_Connection v))
            \<and> total_checks (fst (outcomes env v)) = 3
            \<and> ''API Connection'' \<notin> fst ` set (fst (outcomes env v)))
       \<and> clients (main env) = []
       \<and> All_Systems_Go \<notin> set (printed (main env))
       \<and> (All_Systems_Go \<in> set (printed (main env')) \<longleftrightarrow>
            list_all snd (fst (outcomes env' blank_report)))"
proof -
  have k: "\<not> fst (test_api_key env v)" for v
    using assms by (simp add: test_api_key_result)
  have skip: "test_api_connection env v = (None, emit Connection_Skipped (emit Testing_Connection v))"
    if "importable env ''langchain_openai''"
    using that assms by (simp add: test_api_connection_def Let_def)
  have tot: "total_checks (fst (outcomes env v)) = 3
             \<and> ''API Connection'' \<notin> fst ` set (fst (outcomes env v))"
    if "importable env ''langchain_openai''"
    using that assms
    by (simp add: outcomes_results test_api_connection_result total_checks_def collect_def)
  have cl: "clients (main env) = []"
    using outcomes_clients [OF assms, of blank_report]
    by (simp add: main_def split_beta blank_report_def)
  have "\<not> list_all snd (fst (outcomes env blank_report))"
    using k [of blank_report] by (simp add: outcomes_results collect_def)
  then have ban: "All_Systems_Go \<notin> set (printed (main env))"
    by (simp add: main_banner)
  from k skip tot cl ban main_banner [of env'] show ?thesis by blast
qed

theorem absent_credential_witness:
  "\<not> truthy (OPENAI_API_KEY keyless_machine)
   \<and> importable keyless_machine ''langchain_openai''
   \<and> \<not> fst (test_api_key keyless_machine blank_report)
   \<and> test_api_connection keyless_machine blank_report =
       (None, emit Connection_Skipped (emit Testing_Connection blank_report))
   \<and> total_checks (fst (outcomes keyless_machine blank_report)) = 3
   \<and> clients (main keyless_machine) = []
   \<and> All_Systems_Go \<notin> set (printed (main keyless_machine))"
proof -
  have a: "\<not> truthy (OPENAI_API_KEY keyless_machine)"
    by (simp add: keyless_machine_def truthy_def)
  have b: "importable keyless_machine ''langchain_openai''"
    by (simp add: keyless_machine_def)
  from absent_credential [OF a, of blank_report keyless_machine] a b show ?thesis by blast
qed


section \<open>Facts about the chat loop\<close>

lemma format_template_template: "format_template template v = instructions @ v"
  by (simp add: template_def instructions_def)

lemma instructions_no_field: "CHR ''{'' \<notin> set instructions"
  by (simp add: instructions_def)

lemma remote_outcome_say: "remote_outcome llm (s\<lparr>stdout := out\<rparr>) u = remote_outcome llm s u"
  by (simp add: remote_outcome_def)


lemma iteration_blank:
  "py_strip raw = [] \<Longrightarrow>
     iteration llm (Inr raw) s =
       (awaiting_input, s\<lparr>stdout := stdout s @ [You_Prompt, Please_Enter_Message]\<rparr>)"
  by (simp add: iteration_def loop_body_def say_def Let_def py_lower_def)

lemma iteration_reply:
  "py_lower (py_strip raw) \<noteq> ''exit'' \<Longrightarrow> py_strip raw \<noteq> [] \<Longrightarrow>
   remote_outcome llm s (py_strip raw) = Inr response \<Longrightarrow>
     iteration llm (Inr raw) s =
       (awaiting_input,
        s\<lparr>stdout := stdout s @ [You_Prompt, Thinking, Support_Agent_Says response],
          requests := requests s @ [(instructions @ py_strip raw, chat_history s)],
          chat_history := chat_history s @ [(Customer, py_strip raw), (Support_Agent, response)]\<rparr>)"
  by (simp add: iteration_def loop_body_def chain_run_def remote_outcome_say say_def Let_def
      format_template_template)

lemma iteration_raise:
  "py_lower (py_strip raw) \<noteq> ''exit'' \<Longrightarrow> py_strip raw \<noteq> [] \<Longrightarrow>
   remote_outcome llm s (py_strip raw) = Inl (Exception m) \<Longrightarrow>
     iteration llm (Inr raw) s =
       (awaiting_input,
        s\<lparr>stdout := stdout s @ [You_Prompt, Thinking, Error_Line (Exception m), Check_API_Key_Hint],
          requests := requests s @ [(instructions @ py_strip raw, chat_history s)]\<rparr>)"
  by (simp add: iteration_def loop_body_def chain_run_def remote_outcome_say say_def Let_def
      format_template_template)

lemma iteration_interrupted:
  "py_lower (py_strip raw) \<noteq> ''exit'' \<Longrightarrow> py_strip raw \<noteq> [] \<Longrightarrow>
   remote_outcome llm s (py_strip raw) = Inl KeyboardInterrupt \<Longrightarrow>
     iteration llm (Inr raw) s =
       (terminated,
        s\<lparr>stdout := stdout s @ [You_Prompt, Thinking, Interrupted_Farewell],
          requests := requests s @ [(instructions @ py_strip raw, chat_history s)]\<rparr>)"
  by (simp add: iteration_def loop_body_def chain_run_def remote_outcome_say say_def Let_def
      format_template_template)

lemma strip_hi: "py_strip '' hi '' = ''hi''"
  by (simp add: py_strip_def py_lstrip_def py_rstrip_def py_isspace_def)

lemma lower_hi: "py_lower ''hi'' \<noteq> ''exit''"
  by (simp add: py_lower_def)




text \<open>
  Claim C3. On a line that is empty or holds only whitespace, one pass of the loop
  prints the request to enter a message and stays in \<open>awaiting_input\<close>; it makes no
  request to the remote model and leaves the history as it was.
\<close>

theorem blank_input:
  "\<forall>c \<in> set raw. py_isspace c \<Longrightarrow>
     iteration llm (Inr raw) s =
       (awaiting_input, s\<lparr>stdout := stdout s @ [You_Prompt, Please_Enter_Message]\<rparr>)
     \<and> chat_history (snd (iteration llm (Inr raw) s)) = chat_history s
     \<and> requests (snd (iteration llm (Inr raw) s)) = requests s"
proof -
  assume "\<forall>c \<in> set raw. py_isspace c"
  then have "py_strip raw = []" by (simp add: py_strip_blank list_all_iff)
  then show ?thesis by (simp add: iteration_blank)
qed

theorem blank_input_witness:
  "list_all py_isspace '' '' \<and>
   iteration answers_once (Inr '' '') started =
     (awaiting_input,
      \<lparr>chat_history = [], stdout = [Banner, You_Prompt, Please_Enter_Message], requests = []\<rparr>)"
proof -
  have h: "\<forall>c \<in> set '' ''. py_isspace c" by (simp add: py_isspace_def)
  from blank_input [OF h, of answers_once started] h show ?thesis
    by (simp add: started_def list_all_iff)
qed


text \<open>
  Claim C4. On a line whose stripped text is neither empty nor the exit keyword, one
  pass of the loop adds exactly two entries to the history, the customer's message and
  then the reply, when the remote model replies, and leaves the history unchanged when
  the remote call raises.
\<close>

theorem history_growth:
  assumes "py_strip raw \<noteq> []" and "py_lower (py_strip raw) \<noteq> ''exit''"
  shows "(remote_outcome llm s (py_strip raw) = Inr response \<longrightarrow>
            chat_history (snd (iteration llm (Inr raw) s)) =
              chat_history s @ [(Customer, py_strip raw), (Support_Agent, response)]
            \<and> length (chat_history (snd (iteration llm (Inr raw) s))) =
                length (chat_history s) + 2)
       \<and> (remote_outcome llm s (py_strip raw) = Inl e \<longrightarrow>
            chat_history (snd (iteration llm (Inr raw) s)) = chat_history s)"
proof (intro conjI impI)
  assume r: "remote_outcome llm s (py_strip raw) = Inr response"
  from iteration_reply [OF assms(2) assms(1) r]
  show "chat_history (snd (iteration llm (Inr raw) s)) =
          chat_history s @ [(Customer, py_strip raw), (Support_Agent, response)]"
    by simp
  then show "length (chat_history (snd (iteration llm (Inr raw) s))) = length (chat_history s) + 2"
    by simp
next
  assume r: "remote_outcome llm s (py_strip raw) = Inl e"
  show "chat_history (snd (iteration llm (Inr raw) s)) = chat_history s"
  proof (cases e)
    case KeyboardInterrupt
    from iteration_interrupted [OF assms(2) assms(1) r [unfolded KeyboardInterrupt]]
    show ?thesis by simp
  next
    case (Exception m)
    from iteration_raise [OF assms(2) assms(1) r [unfolded Exception]]
    show ?thesis by simp
  qed
qed

theorem history_growth_witness:
  "py_strip '' hi '' \<noteq> [] \<and> py_lower (py_strip '' hi '') \<noteq> ''exit''
   \<and> remote_outcome answers_once started (py_strip '' hi '') = Inr ''Hello''
   \<and> chat_history (snd (iteration answers_once (Inr '' hi '') started)) =
       [(Customer, ''hi''), (Support_Agent, ''Hello'')]
   \<and> remote_outcome answers_once (started\<lparr>requests := [(''hi'', [])]\<rparr>) (py_strip '' hi '')
       = Inl (Exception ''timeout'')
   \<and> chat_history (snd (iteration answers_once (Inr '' hi '')
        (started\<lparr>requests := [(''hi'', [])]\<rparr>))) = []"
proof -
  have a: "py_strip '' hi '' \<noteq> []" and b: "py_lower (py_strip '' hi '') \<noteq> ''exit''"
    by (simp_all add: strip_hi lower_hi)
  have c: "remote_outcome answers_once started (py_strip '' hi '') = Inr ''Hello''"
    by (simp add: remote_outcome_def answers_once_def started_def)
  have d: "remote_outcome answers_once (started\<lparr>requests := [(''hi'', [])]\<rparr>) (py_strip '' hi '')
       = Inl (Exception ''timeout'')"
    by (simp add: remote_outcome_def answers_once_def started_def)
  from history_growth [OF a b, of answers_once started "''Hello''"] c
    history_growth [OF a b, of answers_once "started\<lparr>requests := [(''hi'', [])]\<rparr>" _ "Exception ''timeout''"] d
    a b
  show ?thesis by (simp add: strip_hi started_def)
qed


text \<open>
  Claim C5, as stated, fails. The text put into the template is not the line as read:
  for the line \<open> hi \<close> the prompt sent is the one for \<open>hi\<close>, which differs from
  the one for the line with its spaces.
\<close>

theorem raw_line_not_inserted:
  "map fst (requests (snd (iteration answers_once (Inr '' hi '') started)))
     = [format_template template ''hi'']
   \<and> format_template template ''hi'' \<noteq> format_template template '' hi ''"
proof -
  have a: "py_strip '' hi '' \<noteq> []" and b: "py_lower (py_strip '' hi '') \<noteq> ''exit''"
    by (simp_all add: strip_hi lower_hi)
  have c: "remote_outcome answers_once started (py_strip '' hi '') = Inr ''Hello''"
    by (simp add: remote_outcome_def answers_once_def started_def)
  from iteration_reply [OF b a c] show ?thesis
    by (simp add: strip_hi started_def format_template_template)
qed


text \<open>
  Claim C5, amended. On a line whose stripped text is neither empty nor the exit
  keyword, the prompt sent to the remote model is the template with the stripped line
  in place of its field, that is the fixed instructions followed by the stripped line;
  the field is the only one, since the instructions hold no brace. When the remote
  model replies, the reply is printed after the notice that the request is under way.
\<close>

theorem stripped_line_inserted:
  assumes "py_strip raw \<noteq> []" and "py_lower (py_strip raw) \<noteq> ''exit''"
  shows "requests (snd (iteration llm (Inr raw) s)) =
           requests s @ [(format_template template (py_strip raw), chat_history s)]
       \<and> format_template template (py_strip raw) = instructions @ py_strip raw
       \<and> template = instructions @ ''{input}''
       \<and> CHR ''{'' \<notin> set instructions
       \<and> (remote_outcome llm s (py_strip raw) = Inr response \<longrightarrow>
            stdout (snd (iteration llm (Inr raw) s)) =
              stdout s @ [You_Prompt, Thinking, Support_Agent_Says response])"
proof -
  have req: "requests (snd (iteration llm (Inr raw) s)) =
           requests s @ [(format_template template (py_strip raw), chat_history s)]"
  proof (cases "remote_outcome llm s (py_strip raw)")
    case (Inr r)
    from iteration_reply [OF assms(2) assms(1) Inr] show ?thesis
      by (simp add: format_template_template)
  next
    case (Inl e)
    show ?thesis
    proof (cases e)
      case KeyboardInterrupt
      from iteration_interrupted [OF assms(2) assms(1) Inl [unfolded KeyboardInterrupt]]
      show ?thesis by (simp add: format_template_template)
    next
      case (Exception m)
      from iteration_raise [OF assms(2) assms(1) Inl [unfolded Exception]]
      show ?thesis by (simp add: format_template_template)
    qed
  qed
  have out: "stdout (snd (iteration llm (Inr raw) s)) =
              stdout s @ [You_Prompt, Thinking, Support_Agent_Says response]"
    if "remote_outcome llm s (py_strip raw) = Inr response"
    using iteration_reply [OF assms(2) assms(1) that] by simp
  have tmpl: "template = instructions @ ''{input}''"
    by (simp add: template_def)
  from req format_template_template [of "py_strip raw"] tmpl instructions_no_field out
  show ?thesis by blast
qed

theorem stripped_line_inserted_witness:
  "py_strip '' hi '' \<noteq> [] \<and> py_lower (py_strip '' hi '') \<noteq> ''exit''
   \<and> remote_outcome answers_once started (py_strip '' hi '') = Inr ''Hello''
   \<and> requests (snd (iteration answers_once (Inr '' hi '') started)) =
        [(instructions @ ''hi'', [])]
   \<and> stdout (snd (iteration answers_once (Inr '' hi '') started)) =
        [Banner, You_Prompt, Thinking, Support_Agent_Says ''Hello'']"
proof -
  have a: "py_strip '' hi '' \<noteq> []" and b: "py_lower (py_strip '' hi '') \<noteq> ''exit''"
    by (simp_all add: strip_hi lower_hi)
  have c: "remote_outcome answers_once started (py_strip '' hi '') = Inr ''Hello''"
    by (simp add: remote_outcome_def answers_once_def started_def)
  from stripped_line_inserted [OF a b, of answers_once started "''Hello''"] a b c
  show ?thesis by (simp add: strip_hi started_def)
qed


text \<open>
  Claim C9. On a line whose stripped text is neither empty nor the exit keyword, an
  exception raised by the remote call is caught in the pass: the error line and the
  hint are printed, the state is \<open>awaiting_input\<close>, and the loop goes on with the
  next input. Of what the remote call can raise, only the operator's interrupt ends
  the loop, and the farewell is printed at once, whether the interrupt comes during
  the remote call or while the loop waits for input; the inputs that follow are not
  read.
\<close>

theorem remote_exception_caught:
  assumes "py_strip raw \<noteq> []" and "py_lower (py_strip raw) \<noteq> ''exit''"
  shows "(remote_outcome llm s (py_strip raw) = Inl (Exception m) \<longrightarrow>
            iteration llm (Inr raw) s =
              (awaiting_input,
               s\<lparr>stdout := stdout s @ [You_Prompt, Thinking, Error_Line (Exception m),
                                        Check_API_Key_Hint],
                 requests := requests s @ [(instructions @ py_strip raw, chat_history s)]\<rparr>)
            \<and> chat_loop llm (Inr raw # rest) s =
                chat_loop llm rest (snd (iteration llm (Inr raw) s)))
       \<and> (remote_outcome llm s (py_strip raw) = Inl e \<longrightarrow>
            (fst (iteration llm (Inr raw) s) = terminated \<longleftrightarrow> e = KeyboardInterrupt))
       \<and> (remote_outcome llm s (py_strip raw) = Inl KeyboardInterrupt \<longrightarrow>
            chat_loop llm (Inr raw # rest) s =
              (terminated,
               s\<lparr>stdout := stdout s @ [You_Prompt, Thinking, Interrupted_Farewell],
                 requests := requests s @ [(instructions @ py_strip raw, chat_history s)]\<rparr>))
       \<and> chat_loop llm (Inl KeyboardInterrupt # rest) s =
            (terminated, s\<lparr>stdout := stdout s @ [You_Prompt, Interrupted_Farewell]\<rparr>)"
proof (intro conjI impI)
  assume r: "remote_outcome llm s (py_strip raw) = Inl (Exception m)"
  from iteration_raise [OF assms(2) assms(1) r]
  show i: "iteration llm (Inr raw) s =
              (awaiting_input,
               s\<lparr>stdout := stdout s @ [You_Prompt, Thinking, Error_Line (Exception m),
                                        Check_API_Key_Hint],
                 requests := requests s @ [(instructions @ py_strip raw, chat_history s)]\<rparr>)" .
  show "chat_loop llm (Inr raw # rest) s = chat_loop llm rest (snd (iteration llm (Inr raw) s))"
    by (simp add: i)
next
  assume r: "remote_outcome llm s (py_strip raw) = Inl e"
  show "fst (iteration llm (Inr raw) s) = terminated \<longleftrightarrow> e = KeyboardInterrupt"
  proof (cases e)
    case KeyboardInterrupt
    from iteration_interrupted [OF assms(2) assms(1) r [unfolded KeyboardInterrupt]] KeyboardInterrupt
    show ?thesis by simp
  next
    case (Exception m')
    from iteration_raise [OF assms(2) assms(1) r [unfolded Exception]] Exception
    show ?thesis by simp
  qed
next
  assume r: "remote_outcome llm s (py_strip raw) = Inl KeyboardInterrupt"
  from iteration_interrupted [OF assms(2) assms(1) r]
  show "chat_loop llm (Inr raw # rest) s =
              (terminated,
               s\<lparr>stdout := stdout s @ [You_Prompt, Thinking, Interrupted_Farewell],
                 requests := requests s @ [(instructions @ py_strip raw, chat_history s)]\<rparr>)"
    by simp
next
  show "chat_loop llm (Inl KeyboardInterrupt # rest) s =
            (terminated, s\<lparr>stdout := stdout s @ [You_Prompt, Interrupted_Farewell]\<rparr>)"
    by (simp add: iteration_def loop_body_def say_def)
qed

theorem remote_exception_caught_witness:
  "py_strip '' hi '' \<noteq> [] \<and> py_lower (py_strip '' hi '') \<noteq> ''exit''
   \<and> remote_outcome answers_once (started\<lparr>requests := [(''hi'', [])]\<rparr>) (py_strip '' hi '')
       = Inl (Exception ''timeout'')
   \<and> iteration answers_once (Inr '' hi '') (started\<lparr>requests := [(''hi'', [])]\<rparr>) =
       (awaiting_input,
        \<lparr>chat_history = [],
         stdout = [Banner, You_Prompt, Thinking, Error_Line (Exception ''timeout''),
                   Check_API_Key_Hint],
         requests = [(''hi'', []), (instructions @ ''hi'', [])]\<rparr>)
   \<and> chat_loop answers_once [Inl KeyboardInterrupt, Inr ''hi''] started =
       (terminated,
        \<lparr>chat_history = [], stdout = [Banner, You_Prompt, Interrupted_Farewell],
         requests = []\<rparr>)"
proof -
  have a: "py_strip '' hi '' \<noteq> []" and b: "py_lower (py_strip '' hi '') \<noteq> ''exit''"
    by (simp_all add: strip_hi lower_hi)
  have c: "remote_outcome answers_once (started\<lparr>requests := [(''hi'', [])]\<rparr>) (py_strip '' hi '')
       = Inl (Exception ''timeout'')"
    by (simp add: remote_outcome_def answers_once_def started_def)
  from remote_exception_caught [OF a b,
      of answers_once "started\<lparr>requests := [(''hi'', [])]\<rparr>" "''timeout''" _ _ ]
    remote_exception_caught [OF a b, of answers_once started _ "[Inr ''hi'']"] a b c
  show ?thesis by (simp add: strip_hi started_def)
qed

end
